theory Spec2Isabelle
  imports Complex_Main "HOL-Library.Word"
begin

section \<open>Python values\<close>

text \<open>
  The middleware of \<^verbatim>\<open>scrapy_selenium/middlewares.py\<close> reads its configuration with
  \<^verbatim>\<open>crawler.settings.get(key)\<close>, which yields \<^verbatim>\<open>None\<close> for a key that is not set.
  The scalar settings are dynamically typed: the source tests them with \<^verbatim>\<open>is None\<close>,
  with truthiness (\<^verbatim>\<open>if proxy_enabled:\<close>) and formats them with \<^verbatim>\<open>%s\<close>.
  Text is a \<^typ>\<open>string\<close>, whose characters are the code points below 256.
\<close>

datatype pyval = PNone | PBool bool | PInt int | PStr string

fun py_truthy :: "pyval \<Rightarrow> bool" where
  "py_truthy PNone = False"
| "py_truthy (PBool b) = b"
| "py_truthy (PInt i) = (i \<noteq> 0)"
| "py_truthy (PStr s) = (s \<noteq> [])"

definition digit :: "nat \<Rightarrow> char" where
  "digit n = ''0123456789'' ! n"

fun str_nat :: "nat \<Rightarrow> string" where
  "str_nat n = (if n < 10 then [digit n] else str_nat (n div 10) @ [digit (n mod 10)])"

declare str_nat.simps [simp del]

definition str_int :: "int \<Rightarrow> string" where
  "str_int i = (if i < 0 then CHR ''-'' # str_nat (nat (- i)) else str_nat (nat i))"

text \<open>\<^verbatim>\<open>str(v)\<close>, as applied by \<^verbatim>\<open>%s\<close> and by an f-string.\<close>

fun py_str :: "pyval \<Rightarrow> string" where
  "py_str PNone = ''None''"
| "py_str (PBool b) = (if b then ''True'' else ''False'')"
| "py_str (PInt i) = str_int i"
| "py_str (PStr s) = s"

type_synonym byte = "8 word"

text \<open>A Python \<^verbatim>\<open>str\<close> whose encoding matters is a list of code points.\<close>

type_synonym unicode = "nat list"

section \<open>Errors\<close>

text \<open>
  Exceptions raised inside Selenium (by the options object, a driver constructor or a
  driver call) are kept apart from the ones the middleware and the Python runtime raise,
  so that no call into Selenium can produce \<^verbatim>\<open>NotConfigured\<close>.
\<close>

datatype driver_error =
    WebDriverException string
  | NoSuchElementException
  | TimeoutException
  | ValueError string

datatype error =
    NotConfigured string
  | ModuleNotFoundError
  | AttributeError string
  | TypeError
  | UnicodeEncodeError
  | DriverError driver_error

fun is_not_configured :: "error + 'a \<Rightarrow> bool" where
  "is_not_configured (Inl (NotConfigured msg)) = True"
| "is_not_configured other = False"

section \<open>Options, drivers and the world outside the middleware\<close>

text \<open>
  The options object of a browser family: the class it was made from, the browser binary,
  the launch arguments and the attached extensions. What its constructor and methods do
  with these is Selenium's and differs by family.
\<close>

record options =
  options_klass :: string
  binary_location :: pyval
  arguments :: "string list"
  extensions :: "string list"

text \<open>The capabilities descriptor that \<^verbatim>\<open>to_capabilities()\<close> makes of an options object.\<close>

datatype capabilities = Capabilities options

text \<open>
  A driver handle records how it was launched: \<^verbatim>\<open>driver_klass(executable_path=..., options=...)\<close>
  or \<^verbatim>\<open>webdriver.Remote(command_executor=..., desired_capabilities=...)\<close>.
\<close>

datatype driver =
    LocalDriver string pyval options
  | RemoteDriver pyval capabilities

datatype branch = ProxiedLocal | PlainLocal | RemoteLaunch

datatype call =
    Get string
  | AddCookie string string
  | Until rat
  | GetScreenshotAsPng
  | ExecuteScript string
  | PageSource
  | CurrentUrl
  | Quit

text \<open>
  What the middleware does to its surroundings is logged in order: which launch branch of
  \<^verbatim>\<open>__init__\<close> was entered, each driver constructor call, the signal connection of
  \<^verbatim>\<open>from_crawler\<close>, and each call on the driver (as a recording mock driver would).
\<close>

datatype event = Branch branch | Launch driver | Connect | Call call

type_synonym archive = "(string \<times> string) list"

text \<open>
  The world holds the archives on disk, the browser session, the time in seconds and the
  log of events.
\<close>

record 'b world =
  files :: "string \<rightharpoonup> archive"
  browser :: "'b"
  clock :: rat
  trace :: "event list"

definition log_event :: "event \<Rightarrow> 'b world \<Rightarrow> 'b world" where
  "log_event e w = w\<lparr>trace := trace w @ [e]\<rparr>"

text \<open>
  The Selenium and import machinery is a parameter. It says which modules exist and which
  attributes a module or a class has; what the constructor and the methods of an options
  object do, each of which may raise; whether a driver launches (and the browser session
  it starts); what each driver call does to the browser session of type \<^typ>\<open>'b\<close>; and
  what becomes of the session while the caller sleeps for some seconds, and by how many
  microseconds such a sleep, with the work done around it, overruns.
\<close>

record 'b env =
  modules :: "string \<Rightarrow> bool"
  module_attr :: "string \<Rightarrow> string \<Rightarrow> bool"
  klass_attr :: "string \<Rightarrow> string \<Rightarrow> bool"
  options_new :: "string \<Rightarrow> driver_error + options"
  options_set_binary_location :: "options \<Rightarrow> pyval \<Rightarrow> driver_error + options"
  options_add_argument :: "options \<Rightarrow> string \<Rightarrow> driver_error + options"
  options_add_extension :: "options \<Rightarrow> string \<Rightarrow> driver_error + options"
  options_to_capabilities :: "options \<Rightarrow> driver_error + capabilities"
  launch :: "driver \<Rightarrow> driver_error + 'b"
  drv_get :: "'b \<Rightarrow> string \<Rightarrow> driver_error + 'b"
  drv_add_cookie :: "'b \<Rightarrow> string \<times> string \<Rightarrow> driver_error + 'b"
  drv_get_screenshot_as_png :: "'b \<Rightarrow> driver_error + byte list"
  drv_execute_script :: "'b \<Rightarrow> string \<Rightarrow> driver_error + 'b"
  drv_page_source :: "'b \<Rightarrow> driver_error + unicode"
  drv_current_url :: "'b \<Rightarrow> driver_error + string"
  drv_quit :: "'b \<Rightarrow> driver_error + 'b"
  idle :: "'b \<Rightarrow> rat \<Rightarrow> 'b"
  overrun :: "'b \<Rightarrow> nat"

section \<open>The middleware and its construction\<close>

text \<open>The attribute \<^verbatim>\<open>self.driver\<close>; \<^const>\<open>None\<close> when it was never assigned.\<close>

record middleware =
  driver :: "driver option"

record init_args =
  driver_name :: pyval
  driver_executable_path :: pyval
  browser_executable_path :: pyval
  command_executor :: pyval
  driver_arguments :: "string list option"
  proxy_enabled :: pyval
  proxy_host :: pyval
  proxy_port :: pyval
  proxy_user :: pyval
  proxy_pass :: pyval

text \<open>\<^verbatim>\<open>getattr(import_module(m), a)\<close>.\<close>

definition resolve :: "'b env \<Rightarrow> string \<Rightarrow> string \<Rightarrow> error + string" where
  "resolve env m a =
     (if \<not> modules env m then Inl ModuleNotFoundError
      else if \<not> module_attr env m a then Inl (AttributeError a)
      else Inr m)"

text \<open>An exception from inside Selenium propagates as it is.\<close>

definition raised :: "driver_error + 'a \<Rightarrow> error + 'a" where
  "raised r = (case r of Inl e \<Rightarrow> Inl (DriverError e) | Inr x \<Rightarrow> Inr x)"

text \<open>
  \<^verbatim>\<open>driver_options.name(...)\<close>: the attribute lookup raises \<^verbatim>\<open>AttributeError\<close> when the
  options class of the family has no such method; otherwise the method runs, and may raise.
\<close>

definition method_call :: "'b env \<Rightarrow> options \<Rightarrow> string \<Rightarrow> driver_error + 'a \<Rightarrow> error + 'a" where
  "method_call env opts name result =
     (if \<not> klass_attr env (options_klass opts) name then Inl (AttributeError name)
      else raised result)"

text \<open>Lines 67 and 68: one \<^verbatim>\<open>add_argument\<close> per element, in order, until one raises.\<close>

fun add_arguments :: "'b env \<Rightarrow> options \<Rightarrow> string list \<Rightarrow> error + options" where
  "add_arguments env opts [] = Inr opts"
| "add_arguments env opts (argument # rest) =
     (case method_call env opts ''add_argument'' (options_add_argument env opts argument) of
        Inl e \<Rightarrow> Inl e
      | Inr opts' \<Rightarrow> add_arguments env opts' rest)"

text \<open>
  Lines 54 to 68 of \<^verbatim>\<open>__init__\<close>: the driver and options classes of the family are
  resolved, the options object is made, the browser binary is assigned when the path is
  truthy, and the extra arguments are added one by one. Iterating over \<^verbatim>\<open>None\<close> is a
  \<^verbatim>\<open>TypeError\<close>.
\<close>

definition init_options :: "'b env \<Rightarrow> init_args \<Rightarrow> error + string \<times> options" where
  "init_options env a =
     (let webdriver_base_path = ''selenium.webdriver.'' @ py_str (driver_name a) in
      case resolve env (webdriver_base_path @ ''.webdriver'') ''WebDriver'' of
        Inl e \<Rightarrow> Inl e
      | Inr driver_klass \<Rightarrow>
         (case resolve env (webdriver_base_path @ ''.options'') ''Options'' of
            Inl e \<Rightarrow> Inl e
          | Inr driver_options_klass \<Rightarrow>
             (case raised (options_new env driver_options_klass) of
                Inl e \<Rightarrow> Inl e
              | Inr driver_options \<Rightarrow>
                 (case (if py_truthy (browser_executable_path a)
                        then raised (options_set_binary_location env driver_options
                                       (browser_executable_path a))
                        else Inr driver_options) of
                    Inl e \<Rightarrow> Inl e
                  | Inr driver_options \<Rightarrow>
                     (case driver_arguments a of
                        None \<Rightarrow> Inl TypeError
                      | Some args \<Rightarrow>
                         (case add_arguments env driver_options args of
                            Inl e \<Rightarrow> Inl e
                          | Inr driver_options \<Rightarrow> Inr (driver_klass, driver_options)))))))"

definition apostrophe :: string where
  "apostrophe = [CHR 0x27]"

definition manifest_json :: string where
  \<open>manifest_json = concat
    [''\<newline>'',
     ''            {\<newline>'',
     ''                "version": "1.0.0",\<newline>'',
     ''                "manifest_version": 2,\<newline>'',
     ''                "name": "Chrome Proxy",\<newline>'',
     ''                "permissions": [\<newline>'',
     ''                    "proxy",\<newline>'',
     ''                    "tabs",\<newline>'',
     ''                    "unlimitedStorage",\<newline>'',
     ''                    "storage",\<newline>'',
     ''                    "<all_urls>",\<newline>'',
     ''                    "webRequest",\<newline>'',
     ''                    "webRequestBlocking"\<newline>'',
     ''                ],\<newline>'',
     ''                "background": {\<newline>'',
     ''                    "scripts": ["background.js"]\<newline>'',
     ''                },\<newline>'',
     ''                "minimum_chrome_version":"22.0.0"\<newline>'',
     ''            }\<newline>'',
     ''            '']\<close>

text \<open>
  The literal of lines 93 to 122, cut at its four \<^verbatim>\<open>%s\<close>: the text up to the host,
  from the host to the port, from the port to the user, from the user to the password, and
  after the password.
\<close>

definition background_js_0 :: string where
  \<open>background_js_0 = concat
    [''\<newline>'',
     ''            var config = {\<newline>'',
     ''                mode: 'fixed_servers',\<newline>'',
     ''                rules: {\<newline>'',
     ''                    singleProxy: {\<newline>'',
     ''                        scheme: 'http',\<newline>'',
     ''                        host: '',
     apostrophe]\<close>

definition background_js_1 :: string where
  \<open>background_js_1 = concat
    [apostrophe,
     '',\<newline>'',
     ''                        port: parseInt('']\<close>

definition background_js_2 :: string where
  \<open>background_js_2 = concat
    ['')\<newline>'',
     ''                    },\<newline>'',
     ''                    bypassList: ['localhost']\<newline>'',
     ''                }\<newline>'',
     ''            };\<newline>'',
     ''\<newline>'',
     ''            chrome.proxy.settings.set({value: config, scope: 'regular'}, function() {});\<newline>'',
     ''\<newline>'',
     ''            function callbackFn(details) {\<newline>'',
     ''                return {\<newline>'',
     ''                    authCredentials: {\<newline>'',
     ''                        username: '',
     apostrophe]\<close>

definition background_js_3 :: string where
  \<open>background_js_3 = concat
    [apostrophe,
     '',\<newline>'',
     ''                        password: '',
     apostrophe]\<close>

definition background_js_4 :: string where
  \<open>background_js_4 = concat
    [apostrophe,
     ''\<newline>'',
     ''                    }\<newline>'',
     ''                };\<newline>'',
     ''            }\<newline>'',
     ''\<newline>'',
     ''            chrome.webRequest.onAuthRequired.addListener(\<newline>'',
     ''                callbackFn,\<newline>'',
     ''                {urls: ['<all_urls>']},\<newline>'',
     ''                ['blocking']\<newline>'',
     ''            );\<newline>'',
     ''            '']\<close>

text \<open>\<^verbatim>\<open>template % (proxy_host, proxy_port, proxy_user, proxy_pass)\<close>: each \<^verbatim>\<open>%s\<close> becomes \<^verbatim>\<open>str\<close> of its value.\<close>

definition background_js :: "pyval \<Rightarrow> pyval \<Rightarrow> pyval \<Rightarrow> pyval \<Rightarrow> string" where
  "background_js host port user pass =
     background_js_0 @ py_str host @ background_js_1 @ py_str port @
     background_js_2 @ py_str user @ background_js_3 @ py_str pass @ background_js_4"

definition plugin_file :: string where
  "plugin_file = ''proxy_auth_plugin.zip''"

text \<open>
  \<^verbatim>\<open>zipfile.ZipFile(plugin_file, 'w')\<close> with its two \<^verbatim>\<open>writestr\<close> calls: the file of
  that name in the working directory is replaced by an archive of the two entries.
\<close>

definition write_plugin :: "init_args \<Rightarrow> 'b world \<Rightarrow> 'b world" where
  "write_plugin a w =
     w\<lparr>files := (files w)(plugin_file \<mapsto>
        [(''manifest.json'', manifest_json),
         (''background.js'',
          background_js (proxy_host a) (proxy_port a) (proxy_user a) (proxy_pass a))])\<rparr>"

text \<open>A driver constructor call: it is logged, and it either raises or starts a session.\<close>

definition construct :: "'b env \<Rightarrow> driver \<Rightarrow> 'b world \<Rightarrow> (error + middleware) \<times> 'b world" where
  "construct env d w =
     (let w' = log_event (Launch d) w in
      case launch env d of
        Inl e \<Rightarrow> (Inl (DriverError e), w')
      | Inr b \<Rightarrow> (Inr \<lparr>driver = Some d\<rparr>, w'\<lparr>browser := b\<rparr>))"

text \<open>
  Lines 71 to 147: the chain \<^verbatim>\<open>if proxy_enabled: ... elif driver_executable_path is not None: ...
  elif command_executor is not None: ...\<close>, which has no \<^verbatim>\<open>else\<close>. In the first branch the
  archive is written before \<^verbatim>\<open>add_extension\<close> is called, and in the last the options are
  converted before the remote constructor is called; either call may raise.
\<close>

definition init_launch ::
  "'b env \<Rightarrow> init_args \<Rightarrow> string \<Rightarrow> options \<Rightarrow> 'b world \<Rightarrow> (error + middleware) \<times> 'b world" where
  "init_launch env a driver_klass driver_options w =
     (if py_truthy (proxy_enabled a) then
        (let w' = write_plugin a (log_event (Branch ProxiedLocal) w) in
         case method_call env driver_options ''add_extension''
                (options_add_extension env driver_options plugin_file) of
           Inl e \<Rightarrow> (Inl e, w')
         | Inr driver_options \<Rightarrow>
             construct env (LocalDriver driver_klass (driver_executable_path a) driver_options) w')
      else if driver_executable_path a \<noteq> PNone then
        construct env (LocalDriver driver_klass (driver_executable_path a) driver_options)
          (log_event (Branch PlainLocal) w)
      else if command_executor a \<noteq> PNone then
        (let w' = log_event (Branch RemoteLaunch) w in
         case method_call env driver_options ''to_capabilities''
                (options_to_capabilities env driver_options) of
           Inl e \<Rightarrow> (Inl e, w')
         | Inr capabilities \<Rightarrow> construct env (RemoteDriver (command_executor a) capabilities) w')
      else (Inr \<lparr>driver = None\<rparr>, w))"

definition init :: "'b env \<Rightarrow> init_args \<Rightarrow> 'b world \<Rightarrow> (error + middleware) \<times> 'b world" where
  "init env a w =
     (case init_options env a of
        Inl e \<Rightarrow> (Inl e, w)
      | Inr (driver_klass, driver_options) \<Rightarrow> init_launch env a driver_klass driver_options w)"

text \<open>The ten settings \<^verbatim>\<open>from_crawler\<close> reads; \<^const>\<open>PNone\<close> and \<^const>\<open>None\<close> stand for a key that is not set.\<close>

record settings =
  SELENIUM_DRIVER_NAME :: pyval
  SELENIUM_DRIVER_EXECUTABLE_PATH :: pyval
  SELENIUM_BROWSER_EXECUTABLE_PATH :: pyval
  SELENIUM_COMMAND_EXECUTOR :: pyval
  SELENIUM_DRIVER_ARGUMENTS :: "string list option"
  SELENIUM_PROXY_ENABLED :: pyval
  SELENIUM_PROXY_HOST :: pyval
  SELENIUM_PROXY_PORT :: pyval
  SELENIUM_PROXY_USER :: pyval
  SELENIUM_PROXY_PASS :: pyval

definition args_of :: "settings \<Rightarrow> init_args" where
  "args_of s =
     \<lparr>driver_name = SELENIUM_DRIVER_NAME s,
      driver_executable_path = SELENIUM_DRIVER_EXECUTABLE_PATH s,
      browser_executable_path = SELENIUM_BROWSER_EXECUTABLE_PATH s,
      command_executor = SELENIUM_COMMAND_EXECUTOR s,
      driver_arguments = SELENIUM_DRIVER_ARGUMENTS s,
      proxy_enabled = SELENIUM_PROXY_ENABLED s,
      proxy_host = SELENIUM_PROXY_HOST s,
      proxy_port = SELENIUM_PROXY_PORT s,
      proxy_user = SELENIUM_PROXY_USER s,
      proxy_pass = SELENIUM_PROXY_PASS s\<rparr>"

definition from_crawler :: "'b env \<Rightarrow> settings \<Rightarrow> 'b world \<Rightarrow> (error + middleware) \<times> 'b world" where
  "from_crawler env s w =
     (if SELENIUM_DRIVER_NAME s = PNone then
        (Inl (NotConfigured ''SELENIUM_DRIVER_NAME must be set''), w)
      else if SELENIUM_DRIVER_EXECUTABLE_PATH s = PNone \<and> SELENIUM_COMMAND_EXECUTOR s = PNone then
        (Inl (NotConfigured
           ''Either SELENIUM_DRIVER_EXECUTABLE_PATH or SELENIUM_COMMAND_EXECUTOR must be set''), w)
      else
        (case init env (args_of s) w of
           (Inl e, w') \<Rightarrow> (Inl e, w')
         | (Inr middleware, w') \<Rightarrow> (Inr middleware, log_event Connect w')))"

section \<open>Requests and responses\<close>

datatype metaval = Bytes "byte list" | Handle driver | Value pyval

text \<open>
  The attributes of a framework request that the middleware touches: the URL, the cookies
  (a dictionary, in insertion order) and the side-channel map \<^verbatim>\<open>meta\<close>.
\<close>

record request_fields =
  url :: string
  cookies :: "(string \<times> string) list"
  meta :: "string \<rightharpoonup> metaval"

text \<open>
  Modelled from the spec: the class \<^verbatim>\<open>SeleniumRequest\<close> of \<^verbatim>\<open>scrapy_selenium/http.py\<close>,
  which the middleware imports and which is not among the sources. The spec gives it the
  inherited request attributes and four directives: \<^verbatim>\<open>wait_time\<close> (numeric seconds),
  \<^verbatim>\<open>wait_until\<close> (an optional condition, a predicate evaluated against the driver),
  \<^verbatim>\<open>screenshot\<close> (a boolean) and \<^verbatim>\<open>script\<close> (an optional string); it is distinguishable
  by type from the base request. A condition is the caller's code: called on the driver it
  returns a value, of which only the truth matters, or raises.
\<close>

type_synonym 'b condition = "'b \<Rightarrow> error + bool"

record 'b directives =
  wait_time :: rat
  wait_until :: "'b condition option"
  screenshot :: bool
  script :: "string option"

datatype 'b req = Request request_fields | SeleniumRequest request_fields "'b directives"

fun fields :: "'b req \<Rightarrow> request_fields" where
  "fields (Request r) = r"
| "fields (SeleniumRequest r d) = r"

fun update_meta :: "((string \<rightharpoonup> metaval) \<Rightarrow> (string \<rightharpoonup> metaval)) \<Rightarrow> 'b req \<Rightarrow> 'b req" where
  "update_meta g (Request r) = Request (r\<lparr>meta := g (meta r)\<rparr>)"
| "update_meta g (SeleniumRequest r d) = SeleniumRequest (r\<lparr>meta := g (meta r)\<rparr>) d"

text \<open>\<^verbatim>\<open>HtmlResponse(url, body=..., encoding=..., request=...)\<close>.\<close>

record 'b response =
  response_url :: string
  response_body :: "byte list"
  response_encoding :: string
  response_request :: "'b req"

section \<open>UTF-8\<close>

text \<open>
  \<^verbatim>\<open>str.encode(s)\<close> encodes to UTF-8 and raises \<^verbatim>\<open>UnicodeEncodeError\<close> at a surrogate
  code point. A number from \<open>0x110000\<close> on is no code point and cannot occur in a
  \<^verbatim>\<open>str\<close>; it is refused as well.
\<close>

definition utf8_char :: "nat \<Rightarrow> error + byte list" where
  "utf8_char c =
     (if c < 0x80 then Inr [word_of_nat c]
      else if c < 0x800 then
        Inr [word_of_nat (0xC0 + c div 0x40), word_of_nat (0x80 + c mod 0x40)]
      else if 0xD800 \<le> c \<and> c < 0xE000 then Inl UnicodeEncodeError
      else if c < 0x10000 then
        Inr [word_of_nat (0xE0 + c div 0x1000),
             word_of_nat (0x80 + (c div 0x40) mod 0x40),
             word_of_nat (0x80 + c mod 0x40)]
      else if c < 0x110000 then
        Inr [word_of_nat (0xF0 + c div 0x40000),
             word_of_nat (0x80 + (c div 0x1000) mod 0x40),
             word_of_nat (0x80 + (c div 0x40) mod 0x40),
             word_of_nat (0x80 + c mod 0x40)]
      else Inl UnicodeEncodeError)"

fun str_encode :: "unicode \<Rightarrow> error + byte list" where
  "str_encode [] = Inr []"
| "str_encode (c # cs) =
     (case utf8_char c of
        Inl e \<Rightarrow> Inl e
      | Inr bs \<Rightarrow> (case str_encode cs of Inl e \<Rightarrow> Inl e | Inr rest \<Rightarrow> Inr (bs @ rest)))"

section \<open>Processing a request\<close>

text \<open>
  A call of \<^verbatim>\<open>process_request\<close> can reach three things: the middleware \<^verbatim>\<open>self\<close>, the
  \<^verbatim>\<open>request\<close> object (whose \<^verbatim>\<open>meta\<close> it mutates) and the world. The argument
  \<^verbatim>\<open>spider\<close> is never used. A statement either raises or returns a value, and in both
  cases leaves the three behind as it changed them.
\<close>

record 'b frame =
  self :: middleware
  request :: "'b req"
  world :: "'b world"

type_synonym ('a, 's) io = "'s \<Rightarrow> (error + 'a) \<times> 's"

definition io_return :: "'a \<Rightarrow> ('a, 's) io" where
  "io_return x s = (Inr x, s)"

definition io_bind :: "('a, 's) io \<Rightarrow> ('a \<Rightarrow> ('d, 's) io) \<Rightarrow> ('d, 's) io" where
  "io_bind m k s = (case m s of (Inl e, s') \<Rightarrow> (Inl e, s') | (Inr x, s') \<Rightarrow> k x s')"

text \<open>
  \<^verbatim>\<open>self.driver.m(...)\<close> for a method that acts on the browser, and for one that only
  reads from it: the attribute lookup raises \<^verbatim>\<open>AttributeError\<close> when \<^verbatim>\<open>self.driver\<close> was
  never assigned; otherwise the call is logged and handed to the driver.
\<close>

definition command :: "call \<Rightarrow> ('b \<Rightarrow> driver_error + 'b) \<Rightarrow> (unit, 'b frame) io" where
  "command c act f =
     (case driver (self f) of
        None \<Rightarrow> (Inl (AttributeError ''driver''), f)
      | Some d \<Rightarrow>
         (let w = log_event (Call c) (world f) in
          case act (browser w) of
            Inl e \<Rightarrow> (Inl (DriverError e), f\<lparr>world := w\<rparr>)
          | Inr b \<Rightarrow> (Inr (), f\<lparr>world := w\<lparr>browser := b\<rparr>\<rparr>)))"

definition query :: "call \<Rightarrow> ('b \<Rightarrow> driver_error + 'a) \<Rightarrow> ('a, 'b frame) io" where
  "query c obs f =
     (case driver (self f) of
        None \<Rightarrow> (Inl (AttributeError ''driver''), f)
      | Some d \<Rightarrow>
         (let w = log_event (Call c) (world f) in
          case obs (browser w) of
            Inl e \<Rightarrow> (Inl (DriverError e), f\<lparr>world := w\<rparr>)
          | Inr x \<Rightarrow> (Inr x, f\<lparr>world := w\<rparr>)))"

text \<open>Lines 194 to 200: one \<^verbatim>\<open>add_cookie\<close> per item of \<^verbatim>\<open>request.cookies\<close>.\<close>

fun add_cookies :: "'b env \<Rightarrow> (string \<times> string) list \<Rightarrow> (unit, 'b frame) io" where
  "add_cookies env [] = io_return ()"
| "add_cookies env ((cookie_name, cookie_value) # rest) =
     io_bind
       (command (AddCookie cookie_name cookie_value)
          (\<lambda>b. drv_add_cookie env b (cookie_name, cookie_value)))
       (\<lambda>_. add_cookies env rest)"

text \<open>Lines 192 to 200: navigation, then the cookies.\<close>

definition navigate :: "'b env \<Rightarrow> request_fields \<Rightarrow> (unit, 'b frame) io" where
  "navigate env r =
     io_bind (command (Get (url r)) (\<lambda>b. drv_get env b (url r)))
       (\<lambda>_. add_cookies env (cookies r))"

text \<open>
  Modelled from the spec: \<^verbatim>\<open>WebDriverWait(driver, timeout).until(method)\<close>, which is
  Selenium's and not among the sources. The spec says that it blocks until the condition
  evaluates true against the driver, or fails with a timeout signal after \<^verbatim>\<open>wait_time\<close>
  seconds. It does so by polling: the deadline is the time of the call plus the timeout;
  the condition is evaluated against the driver, and a true value ends the wait; after a
  value that is not true, or the \<^verbatim>\<open>NoSuchElementException\<close> that the wait ignores, it
  sleeps for the poll interval of half a second and, once the deadline has passed, raises
  \<^verbatim>\<open>TimeoutException\<close>; any other exception of the condition propagates. The clock
  moves in \<^verbatim>\<open>sleep\<close>: a sleep lasts the time asked for and the overrun, which stands
  for whatever the sleep and the evaluation of the condition take beyond it.
\<close>

definition POLL_FREQUENCY :: rat where
  "POLL_FREQUENCY = 1 / 2"

definition sleep :: "'b env \<Rightarrow> rat \<Rightarrow> 'b world \<Rightarrow> 'b world" where
  "sleep env seconds w =
     w\<lparr>browser := idle env (browser w) seconds,
       clock := clock w + seconds + of_nat (overrun env (browser w)) / 1000000\<rparr>"

definition attempt :: "'b condition \<Rightarrow> 'b \<Rightarrow> error + bool" where
  "attempt cond b =
     (case cond b of
        Inl e \<Rightarrow> if e = DriverError NoSuchElementException then Inr False else Inl e
      | Inr v \<Rightarrow> Inr v)"

function until_loop ::
  "'b env \<Rightarrow> 'b condition \<Rightarrow> rat \<Rightarrow> 'b world \<Rightarrow> (error + unit) \<times> 'b world" where
  "until_loop env cond end_time w =
     (case attempt cond (browser w) of
        Inl e \<Rightarrow> (Inl e, w)
      | Inr v \<Rightarrow>
          if v then (Inr (), w)
          else (let w' = sleep env POLL_FREQUENCY w in
                if clock w' > end_time then (Inl (DriverError TimeoutException), w')
                else until_loop env cond end_time w'))"
  by pat_completeness auto
termination
proof (relation "measure (\<lambda>(env, cond, end_time, w). nat \<lceil>(end_time - clock w) * 2\<rceil>)")
  show "wf (measure (\<lambda>(env, cond, end_time, w). nat \<lceil>(end_time - clock w) * 2\<rceil>))"
    by simp
next
  fix env :: "'b env" and cond :: "'b condition" and end_time :: rat
    and w w' :: "'b world"
  assume w': "w' = sleep env POLL_FREQUENCY w" and late: "\<not> end_time < clock w'"
  have step: "clock w + 1 / 2 \<le> clock w'"
    using w' by (simp add: sleep_def POLL_FREQUENCY_def)
  with late have le: "clock w + 1 / 2 \<le> end_time"
    by simp
  have "(end_time - clock w') * 2 \<le> (end_time - clock w) * 2 - 1"
    using step by simp
  then have "\<lceil>(end_time - clock w') * 2\<rceil> \<le> \<lceil>(end_time - clock w) * 2 - 1\<rceil>"
    by (rule ceiling_mono)
  then have "\<lceil>(end_time - clock w') * 2\<rceil> \<le> \<lceil>(end_time - clock w) * 2\<rceil> - 1"
    by (simp only: ceiling_diff_one)
  moreover have "1 \<le> \<lceil>(end_time - clock w) * 2\<rceil>"
    using le by (simp add: le_ceiling_iff)
  ultimately show "((env, cond, end_time, w'), env, cond, end_time, w)
        \<in> measure (\<lambda>(env, cond, end_time, w). nat \<lceil>(end_time - clock w) * 2\<rceil>)"
    by simp
qed

declare until_loop.simps [simp del]

definition until :: "'b env \<Rightarrow> rat \<Rightarrow> 'b condition \<Rightarrow> 'b world \<Rightarrow> (error + unit) \<times> 'b world" where
  "until env timeout cond w = until_loop env cond (clock w + timeout) w"

text \<open>
  Lines 202 to 205: \<^verbatim>\<open>WebDriverWait(self.driver, request.wait_time).until(request.wait_until)\<close>,
  called once when \<^verbatim>\<open>wait_until\<close> is set, with no handler around it.
\<close>

definition await :: "'b env \<Rightarrow> 'b directives \<Rightarrow> (unit, 'b frame) io" where
  "await env d f =
     (case wait_until d of
        None \<Rightarrow> (Inr (), f)
      | Some cond \<Rightarrow>
         (case driver (self f) of
            None \<Rightarrow> (Inl (AttributeError ''driver''), f)
          | Some h \<Rightarrow>
             (case until env (wait_time d) cond
                     (log_event (Call (Until (wait_time d))) (world f)) of
                (r, w) \<Rightarrow> (r, f\<lparr>world := w\<rparr>))))"

text \<open>Lines 207 and 208: the screenshot goes into \<^verbatim>\<open>request.meta\<close>.\<close>

definition capture :: "'b env \<Rightarrow> 'b directives \<Rightarrow> (unit, 'b frame) io" where
  "capture env d =
     (if screenshot d then
        io_bind (query GetScreenshotAsPng (drv_get_screenshot_as_png env))
          (\<lambda>png f. (Inr (), f\<lparr>request := update_meta (\<lambda>m. m(''screenshot'' \<mapsto> Bytes png)) (request f)\<rparr>))
      else io_return ())"

text \<open>Lines 210 and 211: a script that is neither \<^verbatim>\<open>None\<close> nor empty is executed.\<close>

definition run_script :: "'b env \<Rightarrow> 'b directives \<Rightarrow> (unit, 'b frame) io" where
  "run_script env d =
     (case script d of
        None \<Rightarrow> io_return ()
      | Some s \<Rightarrow>
          if s = [] then io_return ()
          else command (ExecuteScript s) (\<lambda>b. drv_execute_script env b s))"

text \<open>Line 216: \<^verbatim>\<open>request.meta.update({'driver': self.driver})\<close>.\<close>

definition expose_driver :: "(unit, 'b frame) io" where
  "expose_driver f =
     (case driver (self f) of
        None \<Rightarrow> (Inl (AttributeError ''driver''), f)
      | Some d \<Rightarrow> (Inr (), f\<lparr>request := update_meta (\<lambda>m. m(''driver'' \<mapsto> Handle d)) (request f)\<rparr>))"

text \<open>Lines 213 to 223: the page source is read and encoded, the driver exposed, the response built.\<close>

definition respond :: "'b env \<Rightarrow> ('b response option, 'b frame) io" where
  "respond env =
     io_bind (query PageSource (drv_page_source env)) (\<lambda>page_source.
     io_bind (\<lambda>f. (str_encode page_source, f)) (\<lambda>body.
     io_bind expose_driver (\<lambda>_.
     io_bind (query CurrentUrl (drv_current_url env)) (\<lambda>current_url f.
       (Inr (Some \<lparr>response_url = current_url, response_body = body,
                   response_encoding = ''utf-8'', response_request = request f\<rparr>), f)))))"

text \<open>
  \<^verbatim>\<open>process_request(self, request, spider)\<close>; the result \<^const>\<open>None\<close> is Python's
  \<^verbatim>\<open>None\<close>, by which a downloader middleware leaves the request to the next handler.
\<close>

definition process_request ::
  "'b env \<Rightarrow> middleware \<Rightarrow> 'b req \<Rightarrow> 'b world \<Rightarrow> (error + 'b response option) \<times> 'b frame" where
  "process_request env slf rq w =
     (let f = \<lparr>self = slf, request = rq, world = w\<rparr> in
      case rq of
        Request r \<Rightarrow> (Inr None, f)
      | SeleniumRequest r d \<Rightarrow>
          io_bind (navigate env r) (\<lambda>_.
          io_bind (await env d) (\<lambda>_.
          io_bind (capture env d) (\<lambda>_.
          io_bind (run_script env d) (\<lambda>_.
          respond env)))) f)"

text \<open>\<^verbatim>\<open>spider_closed(self)\<close>: \<^verbatim>\<open>self.driver.quit()\<close>.\<close>

definition spider_closed :: "'b env \<Rightarrow> middleware \<Rightarrow> 'b world \<Rightarrow> (error + unit) \<times> 'b world" where
  "spider_closed env slf w =
     (case driver slf of
        None \<Rightarrow> (Inl (AttributeError ''driver''), w)
      | Some d \<Rightarrow>
         (let w' = log_event (Call Quit) w in
          case drv_quit env (browser w') of
            Inl e \<Rightarrow> (Inl (DriverError e), w')
          | Inr b \<Rightarrow> (Inr (), w'\<lparr>browser := b\<rparr>)))"

section \<open>Notions used in the statements\<close>

text \<open>The launch branches entered and the driver constructors called, read off a trace.\<close>

fun branches :: "event list \<Rightarrow> branch list" where
  "branches [] = []"
| "branches (Branch b # es) = b # branches es"
| "branches (e # es) = branches es"

fun launches :: "event list \<Rightarrow> driver list" where
  "launches [] = []"
| "launches (Launch d # es) = d # launches es"
| "launches (e # es) = launches es"

text \<open>A configuration that passes the two checks of \<^verbatim>\<open>from_crawler\<close>.\<close>

definition validated :: "settings \<Rightarrow> bool" where
  "validated s =
     (SELENIUM_DRIVER_NAME s \<noteq> PNone \<and>
      (SELENIUM_DRIVER_EXECUTABLE_PATH s \<noteq> PNone \<or> SELENIUM_COMMAND_EXECUTOR s \<noteq> PNone))"

text \<open>The world after \<open>n\<close> sleeps of one poll interval each.\<close>

fun after :: "'b env \<Rightarrow> nat \<Rightarrow> 'b world \<Rightarrow> 'b world" where
  "after env 0 w = w"
| "after env (Suc n) w = after env n (sleep env POLL_FREQUENCY w)"

section \<open>A stub driver and concrete inputs\<close>

text \<open>
  A small environment on which the model can be run. The Chrome and Firefox families
  exist; as in Selenium, the Chrome options refuse an empty argument with a
  \<^verbatim>\<open>ValueError\<close> and the Firefox options have no \<^verbatim>\<open>add_extension\<close>. Every launch
  succeeds, navigation fails for one host only, a page that has been navigated to needs
  two poll intervals to finish loading, and every sleep overruns by a millisecond.
\<close>

record stub_browser =
  location :: string
  jar :: "(string \<times> string) list"
  loading :: nat

definition stub_env :: "stub_browser env" where
  "stub_env =
     \<lparr>modules = (\<lambda>m. m \<in> set [''selenium.webdriver.chrome.webdriver'',
                               ''selenium.webdriver.chrome.options'',
                               ''selenium.webdriver.firefox.webdriver'',
                               ''selenium.webdriver.firefox.options'']),
      module_attr = (\<lambda>m a. True),
      klass_attr = (\<lambda>k a. \<not> (k = ''selenium.webdriver.firefox.options'' \<and> a = ''add_extension'')),
      options_new = (\<lambda>k. Inr \<lparr>options_klass = k, binary_location = PStr [], arguments = [],
                               extensions = []\<rparr>),
      options_set_binary_location = (\<lambda>opts v. Inr (opts\<lparr>binary_location := v\<rparr>)),
      options_add_argument = (\<lambda>opts a. if a = [] then Inl (ValueError ''argument can not be null'')
                                        else Inr (opts\<lparr>arguments := arguments opts @ [a]\<rparr>)),
      options_add_extension = (\<lambda>opts f. Inr (opts\<lparr>extensions := extensions opts @ [f]\<rparr>)),
      options_to_capabilities = (\<lambda>opts. Inr (Capabilities opts)),
      launch = (\<lambda>d. Inr \<lparr>location = ''data:,'', jar = [], loading = 0\<rparr>),
      drv_get = (\<lambda>b u. if u = ''http://unreachable.test/''
                         then Inl (WebDriverException ''unreachable'')
                         else Inr (b\<lparr>location := u, loading := 2\<rparr>)),
      drv_add_cookie = (\<lambda>b c. Inr (b\<lparr>jar := jar b @ [c]\<rparr>)),
      drv_get_screenshot_as_png = (\<lambda>b. Inr [0x89, 0x50, 0x4E, 0x47, of_nat (loading b)]),
      drv_execute_script = (\<lambda>b s. Inr b),
      drv_page_source = (\<lambda>b. Inr [60, 233, 62]),
      drv_current_url = (\<lambda>b. Inr (location b)),
      drv_quit = (\<lambda>b. Inr b),
      idle = (\<lambda>b seconds. b\<lparr>loading := loading b - 1\<rparr>),
      overrun = (\<lambda>b. 1000)\<rparr>"

text \<open>Three conditions: the page has loaded; never true; one that raises.\<close>

definition page_loaded :: "stub_browser condition" where
  "page_loaded b = Inr (loading b = 0)"

definition never_true :: "stub_browser condition" where
  "never_true b = Inr False"

definition stale :: "stub_browser condition" where
  "stale b = Inl (DriverError (WebDriverException ''stale element reference''))"

definition world0 :: "stub_browser world" where
  "world0 =
     \<lparr>files = Map.empty, browser = \<lparr>location = [], jar = [], loading = 0\<rparr>, clock = 0,
      trace = []\<rparr>"

definition no_settings :: settings where
  "no_settings =
     \<lparr>SELENIUM_DRIVER_NAME = PNone, SELENIUM_DRIVER_EXECUTABLE_PATH = PNone,
      SELENIUM_BROWSER_EXECUTABLE_PATH = PNone, SELENIUM_COMMAND_EXECUTOR = PNone,
      SELENIUM_DRIVER_ARGUMENTS = None, SELENIUM_PROXY_ENABLED = PNone,
      SELENIUM_PROXY_HOST = PNone, SELENIUM_PROXY_PORT = PNone,
      SELENIUM_PROXY_USER = PNone, SELENIUM_PROXY_PASS = PNone\<rparr>"

definition local_settings :: settings where
  "local_settings =
     no_settings\<lparr>SELENIUM_DRIVER_NAME := PStr ''chrome'',
       SELENIUM_DRIVER_EXECUTABLE_PATH := PStr ''/usr/bin/chromedriver'',
       SELENIUM_DRIVER_ARGUMENTS := Some [''--headless'']\<rparr>"

definition remote_settings :: settings where
  "remote_settings =
     no_settings\<lparr>SELENIUM_DRIVER_NAME := PStr ''firefox'',
       SELENIUM_COMMAND_EXECUTOR := PStr ''http://hub.test:4444/wd/hub'',
       SELENIUM_DRIVER_ARGUMENTS := Some []\<rparr>"

definition proxy_settings :: settings where
  "proxy_settings =
     local_settings\<lparr>SELENIUM_PROXY_ENABLED := PBool True,
       SELENIUM_PROXY_HOST := PStr ''proxy.test'', SELENIUM_PROXY_PORT := PInt 8080,
       SELENIUM_PROXY_USER := PStr ''user'', SELENIUM_PROXY_PASS := PStr ''it's''\<rparr>"

definition firefox_proxy_settings :: settings where
  "firefox_proxy_settings =
     proxy_settings\<lparr>SELENIUM_DRIVER_NAME := PStr ''firefox'',
       SELENIUM_DRIVER_EXECUTABLE_PATH := PStr ''/usr/bin/geckodriver'',
       SELENIUM_DRIVER_ARGUMENTS := Some [''-headless'']\<rparr>"

definition bare_proxy_settings :: settings where
  "bare_proxy_settings = local_settings\<lparr>SELENIUM_PROXY_ENABLED := PBool True\<rparr>"

definition unsupported_settings :: settings where
  "unsupported_settings = local_settings\<lparr>SELENIUM_DRIVER_NAME := PStr ''netscape''\<rparr>"

definition unsupported_proxy_settings :: settings where
  "unsupported_proxy_settings = proxy_settings\<lparr>SELENIUM_DRIVER_NAME := PStr ''netscape''\<rparr>"

definition blank_argument_settings :: settings where
  "blank_argument_settings = local_settings\<lparr>SELENIUM_DRIVER_ARGUMENTS := Some [[]]\<rparr>"

definition blank_argument_proxy_settings :: settings where
  "blank_argument_proxy_settings = proxy_settings\<lparr>SELENIUM_DRIVER_ARGUMENTS := Some [[]]\<rparr>"

definition settings_without_arguments :: settings where
  "settings_without_arguments =
     no_settings\<lparr>SELENIUM_DRIVER_NAME := PStr ''chrome'',
       SELENIUM_DRIVER_EXECUTABLE_PATH := PStr ''/usr/bin/chromedriver''\<rparr>"

definition bare_args :: init_args where
  "bare_args =
     \<lparr>driver_name = PStr ''chrome'', driver_executable_path = PNone,
      browser_executable_path = PNone, command_executor = PNone,
      driver_arguments = Some [], proxy_enabled = PBool False,
      proxy_host = PNone, proxy_port = PNone, proxy_user = PNone, proxy_pass = PNone\<rparr>"

definition chrome_options :: options where
  "chrome_options =
     \<lparr>options_klass = ''selenium.webdriver.chrome.options'', binary_location = PStr [],
      arguments = [''--headless''], extensions = []\<rparr>"

definition firefox_options :: options where
  "firefox_options =
     \<lparr>options_klass = ''selenium.webdriver.firefox.options'', binary_location = PStr [],
      arguments = [], extensions = []\<rparr>"

definition chrome_driver :: driver where
  "chrome_driver =
     LocalDriver ''selenium.webdriver.chrome.webdriver'' (PStr ''/usr/bin/chromedriver'')
       chrome_options"

definition stub_middleware :: middleware where
  "stub_middleware = \<lparr>driver = Some chrome_driver\<rparr>"

definition stub_request :: request_fields where
  "stub_request =
     \<lparr>url = ''http://example.test/'', cookies = [(''sid'', ''1'')], meta = Map.empty\<rparr>"

definition unreachable_request :: request_fields where
  "unreachable_request = stub_request\<lparr>url := ''http://unreachable.test/''\<rparr>"

definition stub_directives :: "stub_browser directives" where
  "stub_directives =
     \<lparr>wait_time = 10, wait_until = Some page_loaded, screenshot = True,
      script = Some ''window.scrollTo(0, 0)''\<rparr>"

definition plain_directives :: "stub_browser directives" where
  "plain_directives = \<lparr>wait_time = 10, wait_until = None, screenshot = False, script = None\<rparr>"

definition never_directives :: "stub_browser directives" where
  "never_directives = stub_directives\<lparr>wait_time := 1 / 10, wait_until := Some never_true\<rparr>"

definition stale_directives :: "stub_browser directives" where
  "stale_directives = stub_directives\<lparr>wait_until := Some stale\<rparr>"

text \<open>What the stub gives for directive requests.\<close>

definition exposed_request :: "stub_browser directives \<Rightarrow> stub_browser req" where
  "exposed_request d =
     SeleniumRequest
       (stub_request\<lparr>meta :=
          (if screenshot d
           then [''screenshot'' \<mapsto> Bytes [0x89, 0x50, 0x4E, 0x47, 0],
                 ''driver'' \<mapsto> Handle chrome_driver]
           else [''driver'' \<mapsto> Handle chrome_driver])\<rparr>) d"

definition stub_response :: "stub_browser directives \<Rightarrow> stub_browser response" where
  "stub_response d =
     \<lparr>response_url = ''http://example.test/'', response_body = [0x3C, 0xC3, 0xA9, 0x3E],
      response_encoding = ''utf-8'', response_request = exposed_request d\<rparr>"

text \<open>
  The world once the page has been navigated to and the cookie added, and the world
  \<open>n\<close> poll intervals later, each with the calls made since.
\<close>

definition waited :: "nat \<Rightarrow> event list \<Rightarrow> stub_browser world" where
  "waited n calls =
     \<lparr>files = Map.empty,
      browser = \<lparr>location = ''http://example.test/'', jar = [(''sid'', ''1'')],
                  loading = 2 - n\<rparr>,
      clock = of_nat n * (501 / 1000),
      trace = [Call (Get ''http://example.test/''), Call (AddCookie ''sid'' ''1'')] @ calls\<rparr>"

definition visited :: "event list \<Rightarrow> stub_browser world" where
  "visited calls = waited 0 calls"

section \<open>Auxiliary facts\<close>

subsection \<open>Text\<close>


lemma str_encode_append:
  "str_encode (xs @ ys) =
     (case str_encode xs of
        Inl e \<Rightarrow> Inl e
      | Inr bs \<Rightarrow> (case str_encode ys of Inl e \<Rightarrow> Inl e | Inr cs \<Rightarrow> Inr (bs @ cs)))"
  by (induction xs) (auto split: sum.splits)

lemma str_encode_ascii:
  assumes "\<forall>c \<in> set s. c < 0x80"
  shows "str_encode s = Inr (map word_of_nat s)"
  using assms by (induction s) (simp_all add: utf8_char_def)

lemma utf8_char_defined:
  "(\<exists>bs. utf8_char c = Inr bs) \<longleftrightarrow> c < 0x110000 \<and> \<not> (0xD800 \<le> c \<and> c < 0xE000)"
  by (auto simp: utf8_char_def)

lemma str_encode_defined:
  "(\<exists>bs. str_encode s = Inr bs) \<longleftrightarrow> (\<forall>c \<in> set s. c < 0x110000 \<and> \<not> (0xD800 \<le> c \<and> c < 0xE000))"
proof (induction s)
  case Nil
  show ?case by simp
next
  case (Cons c s)
  have "(\<exists>bs. str_encode (c # s) = Inr bs) \<longleftrightarrow>
        (\<exists>bs. utf8_char c = Inr bs) \<and> (\<exists>bs. str_encode s = Inr bs)"
    by (auto split: sum.splits)
  then show ?case using Cons.IH utf8_char_defined [of c] by simp
qed

lemma str_encode_examples:
  "str_encode [0x3C, 0xE9, 0x3E, 0x20AC, 0x1F600] =
     Inr [0x3C, 0xC3, 0xA9, 0x3E, 0xE2, 0x82, 0xAC, 0xF0, 0x9F, 0x98, 0x80]"
  "str_encode [0x3C, 0xD800] = Inl UnicodeEncodeError"
  by (simp_all add: utf8_char_def)

subsection \<open>Traces and settings\<close>

lemma branches_append: "branches (xs @ ys) = branches xs @ branches ys"
  by (induction xs rule: branches.induct) simp_all

lemma launches_append: "launches (xs @ ys) = launches xs @ launches ys"
  by (induction xs rule: launches.induct) simp_all

lemma args_of_simps:
  "driver_name (args_of s) = SELENIUM_DRIVER_NAME s"
  "driver_executable_path (args_of s) = SELENIUM_DRIVER_EXECUTABLE_PATH s"
  "browser_executable_path (args_of s) = SELENIUM_BROWSER_EXECUTABLE_PATH s"
  "command_executor (args_of s) = SELENIUM_COMMAND_EXECUTOR s"
  "driver_arguments (args_of s) = SELENIUM_DRIVER_ARGUMENTS s"
  "proxy_enabled (args_of s) = SELENIUM_PROXY_ENABLED s"
  "proxy_host (args_of s) = SELENIUM_PROXY_HOST s"
  "proxy_port (args_of s) = SELENIUM_PROXY_PORT s"
  "proxy_user (args_of s) = SELENIUM_PROXY_USER s"
  "proxy_pass (args_of s) = SELENIUM_PROXY_PASS s"
  by (simp_all add: args_of_def)

subsection \<open>Construction\<close>

lemma raised_not_configured:
  "raised r = Inl e \<Longrightarrow> \<not> is_not_configured (Inl e :: error + 'x)"
  by (auto simp: raised_def split: sum.splits)

lemma method_call_not_configured:
  "method_call env opts name r = Inl e \<Longrightarrow> \<not> is_not_configured (Inl e :: error + 'x)"
  by (auto simp: method_call_def raised_def split: if_splits sum.splits)

lemma add_arguments_not_configured:
  "add_arguments env opts args = Inl e \<Longrightarrow> \<not> is_not_configured (Inl e :: error + 'x)"
proof (induction args arbitrary: opts)
  case Nil
  then show ?case by simp
next
  case (Cons a args)
  show ?case
  proof (cases "method_call env opts ''add_argument'' (options_add_argument env opts a)")
    case (Inl e')
    with Cons.prems have "e' = e" by simp
    with Inl method_call_not_configured show ?thesis by metis
  next
    case (Inr opts')
    with Cons.prems have "add_arguments env opts' args = Inl e" by simp
    then show ?thesis by (rule Cons.IH)
  qed
qed

lemma construct_not_configured: "\<not> is_not_configured (fst (construct env d w))"
  by (simp add: construct_def Let_def split: sum.splits)

lemma init_launch_not_configured: "\<not> is_not_configured (fst (init_launch env a k opts w))"
proof -
  have 1: "\<not> is_not_configured (Inl e :: error + middleware)"
    if "method_call env opts name r = Inl e" for name e and r :: "driver_error + 'x"
    using that by (rule method_call_not_configured)
  show ?thesis
    by (auto simp: init_launch_def Let_def construct_not_configured 1 split: sum.splits)
qed

lemma init_options_not_configured:
  assumes "init_options env a = Inl e"
  shows "\<not> is_not_configured (Inl e :: error + middleware)"
proof -
  have 1: "\<not> is_not_configured (Inl e' :: error + middleware)"
    if "raised r = Inl e'" for e' and r :: "driver_error + options"
    using that by (rule raised_not_configured)
  have 2: "\<not> is_not_configured (Inl e' :: error + middleware)"
    if "add_arguments env opts args = Inl e'" for e' opts args
    using that by (rule add_arguments_not_configured)
  from assms show ?thesis
    by (auto simp: init_options_def resolve_def Let_def 1 2
        split: sum.splits option.splits if_splits)
qed

lemma init_not_configured: "\<not> is_not_configured (fst (init env a w))"
  using init_options_not_configured [of env a]
  by (auto simp: init_def init_launch_not_configured split: sum.splits prod.splits)

lemma init_options_without_arguments:
  assumes "driver_arguments a = None"
  shows "\<exists>e. init_options env a = Inl e"
  using assms by (auto simp: init_options_def Let_def split: sum.splits)

lemma init_without_arguments:
  assumes "driver_arguments a = None"
  shows "\<exists>e. init env a w = (Inl e, w)"
  using init_options_without_arguments [OF assms, of env] by (auto simp: init_def)



lemma from_crawler_init:
  assumes "validated s"
  shows "branches (trace (snd (from_crawler env s w))) = branches (trace (snd (init env (args_of s) w)))"
    and "launches (trace (snd (from_crawler env s w))) = launches (trace (snd (init env (args_of s) w)))"
    and "files (snd (from_crawler env s w)) = files (snd (init env (args_of s) w))"
    and "is_not_configured (fst (from_crawler env s w)) = is_not_configured (fst (init env (args_of s) w))"
  using assms
  by (cases "init env (args_of s) w";
      auto simp: from_crawler_def validated_def log_event_def branches_append launches_append
        split: sum.splits)+



subsection \<open>Statements in sequence\<close>

lemma io_bind_Inr:
  assumes "io_bind m k s = (Inr y, s')"
  obtains x s1 where "m s = (Inr x, s1)" and "k x s1 = (Inr y, s')"
  using assms by (auto simp: io_bind_def split: prod.splits sum.splits)

lemma io_bind_eq: "m s = (Inr x, s1) \<Longrightarrow> io_bind m k s = k x s1"
  by (simp add: io_bind_def)

lemma command_Inr:
  assumes "command c act f = (Inr x, f')"
  shows "self f' = self f \<and> request f' = request f \<and> driver (self f) \<noteq> None"
  using assms by (auto simp: command_def Let_def split: option.splits sum.splits)

lemma query_Inr:
  assumes "query c obs f = (Inr x, f')"
  shows "self f' = self f \<and> request f' = request f \<and> driver (self f) \<noteq> None
         \<and> browser (world f') = browser (world f) \<and> obs (browser (world f')) = Inr x"
  using assms by (auto simp: query_def Let_def log_event_def split: option.splits sum.splits)

lemma add_cookies_Inr:
  "add_cookies env cs f = (Inr x, f') \<Longrightarrow> self f' = self f \<and> request f' = request f"
proof (induction cs arbitrary: f)
  case Nil
  then show ?case by (simp add: io_return_def)
next
  case (Cons c cs)
  obtain n v where c: "c = (n, v)" by (cases c)
  from Cons.prems obtain u f1 where
    1: "command (AddCookie n v) (\<lambda>b. drv_add_cookie env b (n, v)) f = (Inr u, f1)"
    and 2: "add_cookies env cs f1 = (Inr x, f')"
    unfolding c add_cookies.simps by (rule io_bind_Inr)
  from command_Inr [OF 1] Cons.IH [OF 2] show ?case by simp
qed

lemma navigate_Inr:
  assumes "navigate env r f = (Inr x, f')"
  shows "self f' = self f \<and> request f' = request f \<and> driver (self f) \<noteq> None"
proof -
  from assms obtain u f1 where
    1: "command (Get (url r)) (\<lambda>b. drv_get env b (url r)) f = (Inr u, f1)"
    and 2: "add_cookies env (cookies r) f1 = (Inr x, f')"
    unfolding navigate_def by (rule io_bind_Inr)
  from command_Inr [OF 1] add_cookies_Inr [OF 2] show ?thesis by simp
qed

lemma await_Inr:
  assumes "await env d f = (Inr x, f')"
  shows "self f' = self f \<and> request f' = request f"
  using assms by (auto simp: await_def split: option.splits prod.splits)

lemma run_script_Inr:
  assumes "run_script env d f = (Inr x, f')"
  shows "self f' = self f \<and> request f' = request f
         \<and> (case script d of None \<Rightarrow> f' = f | Some s \<Rightarrow> s = [] \<longrightarrow> f' = f)"
  using assms command_Inr [of _ _ f x f']
  by (auto simp: run_script_def io_return_def split: option.splits if_splits)

lemma capture_Inr:
  assumes "capture env d f = (Inr x, f')"
  shows "self f' = self f \<and>
         (if screenshot d
          then \<exists>png. drv_get_screenshot_as_png env (browser (world f)) = Inr png \<and>
                 request f' = update_meta (\<lambda>m. m(''screenshot'' \<mapsto> Bytes png)) (request f)
          else request f' = request f)"
proof (cases "screenshot d")
  case True
  with assms obtain png f1 where
    1: "query GetScreenshotAsPng (drv_get_screenshot_as_png env) f = (Inr png, f1)"
    and 2: "f' = f1\<lparr>request := update_meta (\<lambda>m. m(''screenshot'' \<mapsto> Bytes png)) (request f1)\<rparr>"
    by (auto simp: capture_def elim!: io_bind_Inr)
  from query_Inr [OF 1] 2 True show ?thesis by auto
next
  case False
  with assms show ?thesis by (simp add: capture_def io_return_def)
qed

lemma respond_Inr:
  assumes "respond env f = (Inr res, f')"
  shows "\<exists>resp h page_source.
           res = Some resp \<and> self f' = self f
           \<and> driver (self f) = Some h
           \<and> request f' = update_meta (\<lambda>m. m(''driver'' \<mapsto> Handle h)) (request f)
           \<and> drv_page_source env (browser (world f')) = Inr page_source
           \<and> str_encode page_source = Inr (response_body resp)
           \<and> drv_current_url env (browser (world f')) = Inr (response_url resp)
           \<and> response_encoding resp = ''utf-8''
           \<and> response_request resp = request f'"
proof -
  from assms obtain page_source f1 where
    1: "query PageSource (drv_page_source env) f = (Inr page_source, f1)"
    and r1: "io_bind (\<lambda>f. (str_encode page_source, f)) (\<lambda>body.
     io_bind expose_driver (\<lambda>_.
     io_bind (query CurrentUrl (drv_current_url env)) (\<lambda>current_url f.
       (Inr (Some \<lparr>response_url = current_url, response_body = body,
                   response_encoding = ''utf-8'', response_request = request f\<rparr>), f)))) f1
         = (Inr res, f')"
    unfolding respond_def by (rule io_bind_Inr)
  from r1 obtain body f2 where
    2: "(str_encode page_source, f1) = (Inr body, f2)"
    and r2: "io_bind expose_driver (\<lambda>_.
     io_bind (query CurrentUrl (drv_current_url env)) (\<lambda>current_url f.
       (Inr (Some \<lparr>response_url = current_url, response_body = body,
                   response_encoding = ''utf-8'', response_request = request f\<rparr>), f))) f2
         = (Inr res, f')"
    by (rule io_bind_Inr)
  from r2 obtain u f3 where
    3: "expose_driver f2 = (Inr u, f3)"
    and r3: "io_bind (query CurrentUrl (drv_current_url env)) (\<lambda>current_url f.
       (Inr (Some \<lparr>response_url = current_url, response_body = body,
                   response_encoding = ''utf-8'', response_request = request f\<rparr>), f)) f3
         = (Inr res, f')"
    by (rule io_bind_Inr)
  from r3 obtain current_url f4 where
    4: "query CurrentUrl (drv_current_url env) f3 = (Inr current_url, f4)"
    and 5: "(Inr (Some \<lparr>response_url = current_url, response_body = body,
                   response_encoding = ''utf-8'', response_request = request f4\<rparr>), f4)
         = (Inr res, f')"
    by (rule io_bind_Inr) blast
  from 2 have f2: "f2 = f1" and enc: "str_encode page_source = Inr body" by simp_all
  from 3 obtain h where h: "driver (self f2) = Some h"
    and f3: "f3 = f2\<lparr>request := update_meta (\<lambda>m. m(''driver'' \<mapsto> Handle h)) (request f2)\<rparr>"
    by (auto simp: expose_driver_def split: option.splits)
  note q1 = query_Inr [OF 1] and q4 = query_Inr [OF 4]
  from 5 have res: "res = Some \<lparr>response_url = current_url, response_body = body,
                   response_encoding = ''utf-8'', response_request = request f4\<rparr>"
    and f': "f' = f4" by auto
  show ?thesis
    using f2 enc h f3 q1 q4 res f' by auto
qed

lemma process_request_Inr:
  assumes "process_request env slf (SeleniumRequest r d) w = (Inr res, f')"
  obtains f1 f2 f3 f4 where
    "navigate env r \<lparr>self = slf, request = SeleniumRequest r d, world = w\<rparr> = (Inr (), f1)"
    and "await env d f1 = (Inr (), f2)"
    and "capture env d f2 = (Inr (), f3)"
    and "run_script env d f3 = (Inr (), f4)"
    and "respond env f4 = (Inr res, f')"
proof -
  from assms obtain u1 f1 where
    1: "navigate env r \<lparr>self = slf, request = SeleniumRequest r d, world = w\<rparr> = (Inr u1, f1)"
    and r1: "io_bind (await env d) (\<lambda>_.
          io_bind (capture env d) (\<lambda>_.
          io_bind (run_script env d) (\<lambda>_.
          respond env))) f1 = (Inr res, f')"
    unfolding process_request_def Let_def req.case by (rule io_bind_Inr)
  from r1 obtain u2 f2 where
    2: "await env d f1 = (Inr u2, f2)"
    and r2: "io_bind (capture env d) (\<lambda>_.
          io_bind (run_script env d) (\<lambda>_.
          respond env)) f2 = (Inr res, f')"
    by (rule io_bind_Inr)
  from r2 obtain u3 f3 where
    3: "capture env d f2 = (Inr u3, f3)"
    and r3: "io_bind (run_script env d) (\<lambda>_. respond env) f3 = (Inr res, f')"
    by (rule io_bind_Inr)
  from r3 obtain u4 f4 where
    4: "run_script env d f3 = (Inr u4, f4)"
    and 5: "respond env f4 = (Inr res, f')"
    by (rule io_bind_Inr)
  from 1 2 3 4 5 that show thesis by simp
qed

subsection \<open>The wait\<close>

lemma after_simps:
  "trace (after env n w) = trace w"
  "files (after env n w) = files w"
  by (induction n arbitrary: w) (simp_all add: sleep_def)

lemma clock_sleep: "clock w + seconds \<le> clock (sleep env seconds w)"
  by (simp add: sleep_def)

lemma clock_after: "clock w + of_nat n * POLL_FREQUENCY \<le> clock (after env n w)"
proof (induction n arbitrary: w)
  case 0
  show ?case by simp
next
  case (Suc n)
  have "clock w + of_nat (Suc n) * POLL_FREQUENCY =
        clock w + POLL_FREQUENCY + of_nat n * POLL_FREQUENCY"
    by (simp add: algebra_simps)
  also have "\<dots> \<le> clock (sleep env POLL_FREQUENCY w) + of_nat n * POLL_FREQUENCY"
    using clock_sleep [of w POLL_FREQUENCY env] by simp
  also have "\<dots> \<le> clock (after env n (sleep env POLL_FREQUENCY w))"
    by (rule Suc.IH)
  finally show ?case by simp
qed

lemma sleep_log_event: "sleep env seconds (log_event e w) = log_event e (sleep env seconds w)"
  by (simp add: log_event_def sleep_def)

lemma after_log_event: "after env n (log_event e w) = log_event e (after env n w)"
  by (induction n arbitrary: w) (simp_all add: sleep_log_event)

lemma browser_log_event: "browser (log_event e w) = browser w" "clock (log_event e w) = clock w"
  by (simp_all add: log_event_def)

lemma attempt_True: "attempt cond b = Inr True \<longleftrightarrow> cond b = Inr True"
  by (auto simp: attempt_def split: sum.splits if_splits)

text \<open>
  What the polling loop returns: it has slept \<open>n\<close> times, the condition was not true at any
  earlier poll, and then either the condition was true, or it raised, or the deadline
  had passed at the end of the last sleep and at the end of none before.
\<close>

lemma until_loop_outcome:
  assumes "until_loop env cond end_time w = (res, w')"
  shows "\<exists>n. w' = after env n w
           \<and> (\<forall>k<n. attempt cond (browser (after env k w)) = Inr False)
           \<and> ((res = Inr () \<and> attempt cond (browser w') = Inr True
                 \<and> (n = 0 \<or> clock w' \<le> end_time))
              \<or> (res = Inl (DriverError TimeoutException) \<and> 0 < n \<and> end_time < clock w'
                 \<and> (n = 1 \<or> clock (after env (n - 1) w) \<le> end_time))
              \<or> (\<exists>e. res = Inl e \<and> attempt cond (browser w') = Inl e
                 \<and> (n = 0 \<or> clock w' \<le> end_time)))"
  using assms
proof (induction env cond end_time w rule: until_loop.induct)
  case (1 env cond end_time w)
  show ?case
  proof (cases "attempt cond (browser w)")
    case (Inl e)
    with "1.prems" have "res = Inl e" "w' = w"
      by (simp_all add: until_loop.simps [of env cond end_time w])
    with Inl show ?thesis by (intro exI [of _ 0]) simp
  next
    case (Inr v)
    show ?thesis
    proof (cases v)
      case True
      with Inr "1.prems" have "res = Inr ()" "w' = w"
        by (simp_all add: until_loop.simps [of env cond end_time w])
      with Inr True show ?thesis by (intro exI [of _ 0]) simp
    next
      case False
      define w1 where "w1 = sleep env POLL_FREQUENCY w"
      show ?thesis
      proof (cases "end_time < clock w1")
        case True
        with Inr False "1.prems" have "res = Inl (DriverError TimeoutException)" "w' = w1"
          by (simp_all add: until_loop.simps [of env cond end_time w] w1_def Let_def)
        with Inr False True show ?thesis
          by (intro exI [of _ 1]) (simp add: w1_def)
      next
        case late: False
        with Inr False "1.prems" have run: "until_loop env cond end_time w1 = (res, w')"
          by (simp add: until_loop.simps [of env cond end_time w] w1_def Let_def)
        from "1.IH" [OF Inr False w1_def late run] obtain n where
          n: "w' = after env n w1"
          and before: "\<forall>k<n. attempt cond (browser (after env k w1)) = Inr False"
          and out: "(res = Inr () \<and> attempt cond (browser w') = Inr True
                 \<and> (n = 0 \<or> clock w' \<le> end_time))
              \<or> (res = Inl (DriverError TimeoutException) \<and> 0 < n \<and> end_time < clock w'
                 \<and> (n = 1 \<or> clock (after env (n - 1) w1) \<le> end_time))
              \<or> (\<exists>e. res = Inl e \<and> attempt cond (browser w') = Inl e
                 \<and> (n = 0 \<or> clock w' \<le> end_time))"
          by blast
        have a: "w' = after env (Suc n) w"
          using n by (simp add: w1_def)
        have b: "\<forall>k<Suc n. attempt cond (browser (after env k w)) = Inr False"
        proof (intro allI impI)
          fix k assume "k < Suc n"
          show "attempt cond (browser (after env k w)) = Inr False"
          proof (cases k)
            case 0
            with Inr False show ?thesis by simp
          next
            case (Suc j)
            with \<open>k < Suc n\<close> before show ?thesis by (simp add: w1_def)
          qed
        qed
        have c: "clock w' \<le> end_time" if "n = 0"
          using that n late by simp
        have d: "clock (after env (Suc n - 1) w) \<le> end_time"
          if "0 < n" and "n = 1 \<or> clock (after env (n - 1) w1) \<le> end_time"
        proof (cases "n = 1")
          case True
          with late show ?thesis by (simp add: w1_def)
        next
          case False
          with that obtain m where "n = Suc m" and "clock (after env m w1) \<le> end_time"
            by (cases n) auto
          then show ?thesis by (simp add: w1_def)
        qed
        from out a b c d show ?thesis
          by (intro exI [of _ "Suc n"]) auto
      qed
    qed
  qed
qed

subsection \<open>Running the stub\<close>

lemmas stub_settings_defs =
  no_settings_def local_settings_def remote_settings_def proxy_settings_def
  firefox_proxy_settings_def bare_proxy_settings_def unsupported_settings_def
  unsupported_proxy_settings_def blank_argument_settings_def
  blank_argument_proxy_settings_def settings_without_arguments_def

lemmas construction_defs =
  from_crawler_def init_def init_options_def init_launch_def construct_def resolve_def
  raised_def method_call_def write_plugin_def log_event_def args_of_def plugin_file_def

lemmas processing_defs =
  process_request_def navigate_def await_def until_def until_loop.simps sleep_def
  POLL_FREQUENCY_def attempt_def capture_def run_script_def respond_def
  expose_driver_def command_def query_def io_bind_def io_return_def log_event_def
  utf8_char_def

lemmas stub_request_defs =
  stub_middleware_def chrome_driver_def chrome_options_def stub_request_def
  unreachable_request_def stub_directives_def plain_directives_def never_directives_def
  stale_directives_def page_loaded_def never_true_def stale_def

lemma stub_prepared:
  "init_options stub_env (args_of local_settings) =
     Inr (''selenium.webdriver.chrome.webdriver'', chrome_options)"
  "init_options stub_env (args_of proxy_settings) =
     Inr (''selenium.webdriver.chrome.webdriver'', chrome_options)"
  "init_options stub_env (args_of bare_proxy_settings) =
     Inr (''selenium.webdriver.chrome.webdriver'', chrome_options)"
  "init_options stub_env (args_of firefox_proxy_settings) =
     Inr (''selenium.webdriver.firefox.webdriver'', firefox_options\<lparr>arguments := [''-headless'']\<rparr>)"
  "init_options stub_env (args_of remote_settings) =
     Inr (''selenium.webdriver.firefox.webdriver'', firefox_options)"
  "init_options stub_env bare_args =
     Inr (''selenium.webdriver.chrome.webdriver'', chrome_options\<lparr>arguments := []\<rparr>)"
  by (simp_all add: stub_settings_defs bare_args_def init_options_def resolve_def raised_def
      method_call_def args_of_def stub_env_def chrome_options_def firefox_options_def)

section \<open>The claims\<close>

subsection \<open>C1: requests that are not directive requests\<close>

text \<open>
  C1. For every request that is not a \<^verbatim>\<open>SeleniumRequest\<close>, \<^verbatim>\<open>process_request\<close> returns
  \<^verbatim>\<open>None\<close> at once: the middleware, the request with its \<^verbatim>\<open>meta\<close> map, and the world
  (browser session, log of driver calls, files) are exactly as before, whatever the
  driver would do and whether or not the middleware holds a driver at all.
\<close>

theorem process_request_plain_request:
  "process_request env slf (Request r) w =
     (Inr None, \<lparr>self = slf, request = Request r, world = w\<rparr>)"
  by (simp add: process_request_def)

theorem process_request_plain_request_witness:
  "process_request stub_env stub_middleware (Request stub_request) world0 =
     (Inr None, \<lparr>self = stub_middleware, request = Request stub_request, world = world0\<rparr>)"
  using process_request_plain_request [of stub_env stub_middleware stub_request world0] by simp

subsection \<open>C2: the two configuration checks\<close>

text \<open>
  C2. \<^verbatim>\<open>from_crawler\<close> raises \<^verbatim>\<open>NotConfigured\<close> when the driver name is not set, or when
  neither the driver executable path nor the command executor is set, and then the world is
  untouched: no driver constructor has been called. For every configuration that sets the
  driver name and at least one of the two, whatever \<^verbatim>\<open>from_crawler\<close> does, it does not
  raise \<^verbatim>\<open>NotConfigured\<close>.
\<close>

theorem from_crawler_not_configured:
  "(SELENIUM_DRIVER_NAME s = PNone
      \<or> (SELENIUM_DRIVER_EXECUTABLE_PATH s = PNone \<and> SELENIUM_COMMAND_EXECUTOR s = PNone)
     \<longrightarrow> is_not_configured (fst (from_crawler env s w)) \<and> snd (from_crawler env s w) = w)
   \<and> (SELENIUM_DRIVER_NAME s \<noteq> PNone
      \<and> (SELENIUM_DRIVER_EXECUTABLE_PATH s \<noteq> PNone \<or> SELENIUM_COMMAND_EXECUTOR s \<noteq> PNone)
     \<longrightarrow> \<not> is_not_configured (fst (from_crawler env s w)))"
proof (cases "validated s")
  case True
  then have "\<not> is_not_configured (fst (from_crawler env s w))"
    by (simp add: from_crawler_init(4) init_not_configured)
  with True show ?thesis by (simp add: validated_def)
next
  case False
  then show ?thesis by (auto simp: from_crawler_def validated_def)
qed

theorem from_crawler_not_configured_witness:
  "(SELENIUM_DRIVER_NAME no_settings = PNone
      \<and> is_not_configured (fst (from_crawler stub_env no_settings world0))
      \<and> snd (from_crawler stub_env no_settings world0) = world0)
   \<and> (SELENIUM_DRIVER_NAME local_settings \<noteq> PNone
      \<and> SELENIUM_DRIVER_EXECUTABLE_PATH local_settings \<noteq> PNone
      \<and> \<not> is_not_configured (fst (from_crawler stub_env local_settings world0)))"
  using from_crawler_not_configured [of no_settings stub_env world0]
    from_crawler_not_configured [of local_settings stub_env world0]
  by (simp add: no_settings_def local_settings_def)

subsection \<open>C3: the launch branch\<close>




subsection \<open>C4: the proxy extension\<close>




subsection \<open>C5: the wait\<close>

text \<open>
  C5, as stated, fails: a directive request with \<^verbatim>\<open>wait_until\<close> set whose navigation
  raises is neither waited for nor failed with a timeout, for the driver's exception
  propagates from line 192 and the wait of lines 202 to 205 is never reached; and a
  condition that itself raises ends the wait with its own exception, not with a timeout.
\<close>

theorem wait_until_counterexample:
  "(wait_until stub_directives = Some page_loaded
    \<and> process_request stub_env stub_middleware
          (SeleniumRequest unreachable_request stub_directives) world0 =
        (Inl (DriverError (WebDriverException ''unreachable'')),
         \<lparr>self = stub_middleware,
            request = SeleniumRequest unreachable_request stub_directives,
            world = world0\<lparr>trace := [Call (Get ''http://unreachable.test/'')]\<rparr>\<rparr>))
   \<and> (wait_until stale_directives = Some stale
    \<and> process_request stub_env stub_middleware
          (SeleniumRequest stub_request stale_directives) world0 =
        (Inl (DriverError (WebDriverException ''stale element reference'')),
         \<lparr>self = stub_middleware, request = SeleniumRequest stub_request stale_directives,
            world = waited 0 [Call (Until 10)]\<rparr>))"
  by (simp add: processing_defs stub_middleware_def chrome_driver_def chrome_options_def
      stub_request_def unreachable_request_def stub_directives_def stale_directives_def
      stale_def stub_env_def world0_def waited_def)

text \<open>
  C5, amended. For every directive request with \<^verbatim>\<open>wait_until\<close> set that reaches the wait
  (the middleware holds a driver, and navigation and the cookies raise nothing),
  \<^verbatim>\<open>process_request\<close> makes one wait and blocks in it, polling the condition against the
  driver every half second, until the condition evaluates true; processing then goes on,
  from the state of the browser in which it was true, with the screenshot, the script
  and the response. Otherwise it fails: with a timeout signal once more than
  \<^verbatim>\<open>wait_time\<close> seconds have passed since the wait began, at the end of the first
  sleep that ends after them, or with the exception the condition itself raised. The
  failure is not retried, no later step runs, the request is as it was, and the exception
  propagates to the caller. In each case the condition was true at no earlier poll.
\<close>

theorem wait_until_outcome:
  assumes "wait_until d = Some cond"
    and "navigate env r \<lparr>self = slf, request = SeleniumRequest r d, world = w\<rparr> = (Inr (), f1)"
  shows "\<exists>n w2.
           w2 = after env n (log_event (Call (Until (wait_time d))) (world f1))
         \<and> trace w2 = trace (world f1) @ [Call (Until (wait_time d))]
         \<and> (\<forall>k<n. attempt cond (browser (after env k (world f1))) = Inr False)
         \<and> ((cond (browser w2) = Inr True
               \<and> (n = 0 \<or> clock w2 \<le> clock (world f1) + wait_time d)
               \<and> process_request env slf (SeleniumRequest r d) w =
                   io_bind (capture env d) (\<lambda>_. io_bind (run_script env d) (\<lambda>_. respond env))
                     (f1\<lparr>world := w2\<rparr>))
            \<or> (0 < n \<and> clock (world f1) + wait_time d < clock w2
               \<and> (n = 1 \<or> clock (after env (n - 1) (world f1)) \<le> clock (world f1) + wait_time d)
               \<and> process_request env slf (SeleniumRequest r d) w =
                   (Inl (DriverError TimeoutException), f1\<lparr>world := w2\<rparr>))
            \<or> (\<exists>e. attempt cond (browser w2) = Inl e
               \<and> (n = 0 \<or> clock w2 \<le> clock (world f1) + wait_time d)
               \<and> process_request env slf (SeleniumRequest r d) w = (Inl e, f1\<lparr>world := w2\<rparr>)))"
proof -
  define w1 where "w1 = log_event (Call (Until (wait_time d))) (world f1)"
  obtain res w2 where u: "until_loop env cond (clock w1 + wait_time d) w1 = (res, w2)"
    by (cases "until_loop env cond (clock w1 + wait_time d) w1")
  from navigate_Inr [OF assms(2)] obtain h where h: "driver (self f1) = Some h" by auto
  have p: "process_request env slf (SeleniumRequest r d) w =
      io_bind (await env d) (\<lambda>_.
          io_bind (capture env d) (\<lambda>_.
          io_bind (run_script env d) (\<lambda>_.
          respond env))) f1"
    by (simp add: process_request_def io_bind_eq [where m = "navigate env r", OF assms(2)])
  have a: "await env d f1 = (res, f1\<lparr>world := w2\<rparr>)"
    using u by (simp add: await_def assms(1) h until_def w1_def)
  have ok: "process_request env slf (SeleniumRequest r d) w =
      io_bind (capture env d) (\<lambda>_. io_bind (run_script env d) (\<lambda>_. respond env))
        (f1\<lparr>world := w2\<rparr>)" if "res = Inr ()"
    using a that by (simp add: p io_bind_def)
  have ko: "process_request env slf (SeleniumRequest r d) w = (Inl e, f1\<lparr>world := w2\<rparr>)"
    if "res = Inl e" for e
    using a that by (simp add: p io_bind_def)
  have b: "browser (after env k w1) = browser (after env k (world f1))"
    "clock (after env k w1) = clock (after env k (world f1))" for k
    by (simp_all add: w1_def after_log_event browser_log_event)
  have c: "clock w1 = clock (world f1)"
    by (simp add: w1_def browser_log_event)
  from until_loop_outcome [OF u] obtain n where
    n: "w2 = after env n w1"
    and before: "\<forall>k<n. attempt cond (browser (after env k w1)) = Inr False"
    and out: "(res = Inr () \<and> attempt cond (browser w2) = Inr True
                 \<and> (n = 0 \<or> clock w2 \<le> clock w1 + wait_time d))
              \<or> (res = Inl (DriverError TimeoutException) \<and> 0 < n
                 \<and> clock w1 + wait_time d < clock w2
                 \<and> (n = 1 \<or> clock (after env (n - 1) w1) \<le> clock w1 + wait_time d))
              \<or> (\<exists>e. res = Inl e \<and> attempt cond (browser w2) = Inl e
                 \<and> (n = 0 \<or> clock w2 \<le> clock w1 + wait_time d))"
    by blast
  have t: "trace w2 = trace (world f1) @ [Call (Until (wait_time d))]"
    by (simp add: n after_simps w1_def log_event_def)
  from out consider
      (true) "res = Inr ()" "attempt cond (browser w2) = Inr True"
        "n = 0 \<or> clock w2 \<le> clock w1 + wait_time d"
    | (timeout) "res = Inl (DriverError TimeoutException)" "0 < n"
        "clock w1 + wait_time d < clock w2"
        "n = 1 \<or> clock (after env (n - 1) w1) \<le> clock w1 + wait_time d"
    | (raised) e where "res = Inl e" "attempt cond (browser w2) = Inl e"
        "n = 0 \<or> clock w2 \<le> clock w1 + wait_time d"
    by blast
  then show ?thesis
  proof cases
    case true
    then show ?thesis
      using n t before b ok c
      by (intro exI [of _ n] exI [of _ w2]) (auto simp: w1_def attempt_True)
  next
    case timeout
    then show ?thesis
      using n t before b ko [of "DriverError TimeoutException"] c
      by (intro exI [of _ n] exI [of _ w2]) (auto simp: w1_def)
  next
    case (raised e)
    then show ?thesis
      using n t before b ko [of e] c
      by (intro exI [of _ n] exI [of _ w2]) (auto simp: w1_def)
  qed
qed

text \<open>
  On the stub, a condition that is never true and a wait of a tenth of a second: the one
  poll fails, and the timeout comes at the end of the first sleep, which takes half a
  second and a millisecond.
\<close>

theorem wait_until_outcome_witness:
  "wait_until never_directives = Some never_true
   \<and> navigate stub_env stub_request
         \<lparr>self = stub_middleware, request = SeleniumRequest stub_request never_directives,
            world = world0\<rparr> =
       (Inr (), \<lparr>self = stub_middleware,
                  request = SeleniumRequest stub_request never_directives, world = waited 0 []\<rparr>)
   \<and> process_request stub_env stub_middleware (SeleniumRequest stub_request never_directives) world0 =
       (Inl (DriverError TimeoutException),
        \<lparr>self = stub_middleware, request = SeleniumRequest stub_request never_directives,
           world = waited 1 [Call (Until (1 / 10))]\<rparr>)
   \<and> clock (waited 0 []) + wait_time never_directives < clock (waited 1 [Call (Until (1 / 10))])"
proof -
  let ?f1 = "\<lparr>self = stub_middleware, request = SeleniumRequest stub_request never_directives,
               world = waited 0 []\<rparr>"
  have 1: "wait_until never_directives = Some never_true"
    by (simp add: never_directives_def)
  have 2: "navigate stub_env stub_request
         \<lparr>self = stub_middleware, request = SeleniumRequest stub_request never_directives,
            world = world0\<rparr> = (Inr (), ?f1)"
    by (simp add: navigate_def command_def io_bind_def io_return_def log_event_def
        stub_middleware_def stub_request_def stub_env_def world0_def waited_def)
  have t: "wait_time never_directives = 1 / 10" "clock (waited 0 []) = 0"
    by (simp_all add: never_directives_def waited_def)
  have never: "attempt never_true b = Inr False" "never_true b \<noteq> Inr True" for b
    by (simp_all add: attempt_def never_true_def)
  have one: "after stub_env 1 (log_event (Call (Until (1 / 10))) (waited 0 [])) =
      waited 1 [Call (Until (1 / 10))]"
    by (simp add: sleep_def log_event_def waited_def stub_env_def POLL_FREQUENCY_def)
  from wait_until_outcome [OF 1 2] obtain n w2 where
    w2: "w2 = after stub_env n (log_event (Call (Until (1 / 10))) (waited 0 []))"
    and n: "0 < n" "n = 1 \<or> clock (after stub_env (n - 1) (waited 0 [])) \<le> (1 / 10 :: rat)"
      "0 + 1 / 10 < clock w2"
    and r: "process_request stub_env stub_middleware
              (SeleniumRequest stub_request never_directives) world0 =
            (Inl (DriverError TimeoutException), ?f1\<lparr>world := w2\<rparr>)"
    by (auto simp: never t)
  have "n = 1"
  proof (rule ccontr)
    assume "n \<noteq> 1"
    with n obtain m where m: "n = Suc (Suc m)" by (cases n; cases "n - 1") auto
    have "clock (waited 0 []) + of_nat (Suc m) * POLL_FREQUENCY
            \<le> clock (after stub_env (Suc m) (waited 0 []))"
      by (rule clock_after)
    moreover have "clock (after stub_env (Suc m) (waited 0 [])) \<le> 1 / 10"
      using n(2) \<open>n \<noteq> 1\<close> m by simp
    ultimately show False
      by (simp add: t POLL_FREQUENCY_def field_simps)
  qed
  with w2 one have "w2 = waited 1 [Call (Until (1 / 10))]" by simp
  with 1 2 r n(3) t show ?thesis by simp
qed

subsection \<open>C6: the response\<close>

text \<open>
  C6. Whenever \<^verbatim>\<open>process_request\<close> returns for a directive request, it returns a response,
  never \<^verbatim>\<open>None\<close>: its URL is the driver's current URL, its body is the UTF-8 encoding of
  the driver's page source, its encoding is \<^verbatim>\<open>utf-8\<close>, and its request is the request
  object that was passed in, which differs from its state at the call in \<^verbatim>\<open>meta\<close> only.
\<close>

theorem response_of_directive_request:
  assumes "process_request env slf (SeleniumRequest r d) w = (Inr res, f')"
  shows "\<exists>resp page_source m.
           res = Some resp
           \<and> drv_current_url env (browser (world f')) = Inr (response_url resp)
           \<and> drv_page_source env (browser (world f')) = Inr page_source
           \<and> str_encode page_source = Inr (response_body resp)
           \<and> response_encoding resp = ''utf-8''
           \<and> response_request resp = request f'
           \<and> request f' = SeleniumRequest (r\<lparr>meta := m\<rparr>) d"
proof -
  from assms obtain f1 f2 f3 f4 where
    1: "navigate env r \<lparr>self = slf, request = SeleniumRequest r d, world = w\<rparr> = (Inr (), f1)"
    and 2: "await env d f1 = (Inr (), f2)"
    and 3: "capture env d f2 = (Inr (), f3)"
    and 4: "run_script env d f3 = (Inr (), f4)"
    and 5: "respond env f4 = (Inr res, f')"
    by (rule process_request_Inr)
  have "request f2 = SeleniumRequest r d"
    using navigate_Inr [OF 1] await_Inr [OF 2] by simp
  then have "\<exists>m. request f3 = SeleniumRequest (r\<lparr>meta := m\<rparr>) d"
    using capture_Inr [OF 3] by (cases "screenshot d") (auto intro: exI [of _ "meta r"])
  then obtain m where "request f4 = SeleniumRequest (r\<lparr>meta := m\<rparr>) d"
    using run_script_Inr [OF 4] by auto
  with respond_Inr [OF 5] show ?thesis by auto
qed

theorem response_of_directive_request_witness:
  "process_request stub_env stub_middleware (SeleniumRequest stub_request plain_directives) world0 =
     (Inr (Some (stub_response plain_directives)),
      \<lparr>self = stub_middleware, request = exposed_request plain_directives,
         world = visited [Call PageSource, Call CurrentUrl]\<rparr>)
   \<and> drv_current_url stub_env (browser (visited [Call PageSource, Call CurrentUrl])) =
       Inr (response_url (stub_response plain_directives))
   \<and> (\<exists>page_source.
         drv_page_source stub_env (browser (visited [Call PageSource, Call CurrentUrl])) =
           Inr page_source
         \<and> str_encode page_source = Inr (response_body (stub_response plain_directives)))
   \<and> response_encoding (stub_response plain_directives) = ''utf-8''
   \<and> response_request (stub_response plain_directives) = exposed_request plain_directives"
proof -
  have 1: "process_request stub_env stub_middleware
       (SeleniumRequest stub_request plain_directives) world0 =
     (Inr (Some (stub_response plain_directives)),
      \<lparr>self = stub_middleware, request = exposed_request plain_directives,
         world = visited [Call PageSource, Call CurrentUrl]\<rparr>)"
    by (simp add: processing_defs stub_middleware_def chrome_driver_def chrome_options_def
        stub_request_def plain_directives_def stub_env_def world0_def visited_def waited_def
        stub_response_def exposed_request_def)
  from response_of_directive_request [OF 1] 1 show ?thesis by auto
qed

subsection \<open>C7: what is written to the request's metadata\<close>

text \<open>
  C7. Whenever \<^verbatim>\<open>process_request\<close> returns for a directive request, the request's
  \<^verbatim>\<open>meta\<close> map is the one it had at the call with the entry \<^verbatim>\<open>driver\<close> set to the
  middleware's driver handle and, if and only if the screenshot flag is set, the entry
  \<^verbatim>\<open>screenshot\<close> set to the bytes of the capture made: what the driver's screenshot call
  returned for the browser as it was when navigation, the cookies and the wait (lines 192
  to 205) were done. Every other entry, and the rest of the request, is as it was. The
  middleware itself is unchanged: it keeps nothing of the request.
\<close>

theorem meta_entries_written:
  assumes "process_request env slf (SeleniumRequest r d) w = (Inr res, f')"
  shows "self f' = slf \<and>
         (\<exists>h f2. driver slf = Some h
            \<and> io_bind (navigate env r) (\<lambda>_. await env d)
                  \<lparr>self = slf, request = SeleniumRequest r d, world = w\<rparr> = (Inr (), f2)
            \<and> (if screenshot d
               then \<exists>png. drv_get_screenshot_as_png env (browser (world f2)) = Inr png \<and>
                      request f' = SeleniumRequest
                        (r\<lparr>meta := (meta r)(''screenshot'' \<mapsto> Bytes png, ''driver'' \<mapsto> Handle h)\<rparr>) d
               else request f' =
                      SeleniumRequest (r\<lparr>meta := (meta r)(''driver'' \<mapsto> Handle h)\<rparr>) d))"
proof -
  from assms obtain f1 f2 f3 f4 where
    1: "navigate env r \<lparr>self = slf, request = SeleniumRequest r d, world = w\<rparr> = (Inr (), f1)"
    and 2: "await env d f1 = (Inr (), f2)"
    and 3: "capture env d f2 = (Inr (), f3)"
    and 4: "run_script env d f3 = (Inr (), f4)"
    and 5: "respond env f4 = (Inr res, f')"
    by (rule process_request_Inr)
  have a: "request f2 = SeleniumRequest r d" "self f2 = slf"
    using navigate_Inr [OF 1] await_Inr [OF 2] by simp_all
  have b: "self f4 = slf" "request f4 = request f3"
    using a capture_Inr [OF 3] run_script_Inr [OF 4] by simp_all
  have c: "io_bind (navigate env r) (\<lambda>_. await env d)
             \<lparr>self = slf, request = SeleniumRequest r d, world = w\<rparr> = (Inr (), f2)"
    using 2 by (simp add: io_bind_eq [where m = "navigate env r", OF 1])
  from respond_Inr [OF 5] obtain h where
    h: "driver (self f4) = Some h" "self f' = self f4"
      "request f' = update_meta (\<lambda>m. m(''driver'' \<mapsto> Handle h)) (request f4)"
    by auto
  show ?thesis
  proof (cases "screenshot d")
    case True
    with capture_Inr [OF 3] a obtain png where
      "drv_get_screenshot_as_png env (browser (world f2)) = Inr png"
      "request f3 = SeleniumRequest (r\<lparr>meta := (meta r)(''screenshot'' \<mapsto> Bytes png)\<rparr>) d"
      by auto
    with h b c True show ?thesis by auto
  next
    case False
    with capture_Inr [OF 3] a have "request f3 = SeleniumRequest r d" by simp
    with h b c False show ?thesis by auto
  qed
qed

text \<open>
  On the stub, the page needs two poll intervals to load, and the screenshot shows how far
  it has got: the bytes stored are those of the loaded page, at one second.
\<close>

theorem meta_entries_written_witness:
  "process_request stub_env stub_middleware (SeleniumRequest stub_request stub_directives) world0 =
     (Inr (Some (stub_response stub_directives)),
      \<lparr>self = stub_middleware, request = exposed_request stub_directives,
         world = waited 2 [Call (Until 10), Call GetScreenshotAsPng,
                           Call (ExecuteScript ''window.scrollTo(0, 0)''),
                           Call PageSource, Call CurrentUrl]\<rparr>)
   \<and> screenshot stub_directives
   \<and> io_bind (navigate stub_env stub_request) (\<lambda>_. await stub_env stub_directives)
         \<lparr>self = stub_middleware, request = SeleniumRequest stub_request stub_directives,
            world = world0\<rparr> =
       (Inr (), \<lparr>self = stub_middleware,
                  request = SeleniumRequest stub_request stub_directives,
                  world = waited 2 [Call (Until 10)]\<rparr>)
   \<and> drv_get_screenshot_as_png stub_env (browser (waited 2 [Call (Until 10)])) =
       Inr [0x89, 0x50, 0x4E, 0x47, 0]
   \<and> exposed_request stub_directives =
       SeleniumRequest
         (stub_request\<lparr>meta :=
            (meta stub_request)(''screenshot'' \<mapsto> Bytes [0x89, 0x50, 0x4E, 0x47, 0],
                                ''driver'' \<mapsto> Handle chrome_driver)\<rparr>)
         stub_directives"
proof -
  have 1: "process_request stub_env stub_middleware
       (SeleniumRequest stub_request stub_directives) world0 =
     (Inr (Some (stub_response stub_directives)),
      \<lparr>self = stub_middleware, request = exposed_request stub_directives,
         world = waited 2 [Call (Until 10), Call GetScreenshotAsPng,
                           Call (ExecuteScript ''window.scrollTo(0, 0)''),
                           Call PageSource, Call CurrentUrl]\<rparr>)"
    by (simp add: processing_defs stub_middleware_def chrome_driver_def chrome_options_def
        stub_request_def stub_directives_def page_loaded_def stub_env_def world0_def
        waited_def stub_response_def exposed_request_def)
  have 2: "screenshot stub_directives"
    by (simp add: stub_directives_def)
  have 3: "io_bind (navigate stub_env stub_request) (\<lambda>_. await stub_env stub_directives)
         \<lparr>self = stub_middleware, request = SeleniumRequest stub_request stub_directives,
            world = world0\<rparr> =
       (Inr (), \<lparr>self = stub_middleware,
                  request = SeleniumRequest stub_request stub_directives,
                  world = waited 2 [Call (Until 10)]\<rparr>)"
    by (simp add: processing_defs stub_middleware_def chrome_driver_def chrome_options_def
        stub_request_def stub_directives_def page_loaded_def stub_env_def world0_def
        waited_def)
  have 4: "driver stub_middleware = Some chrome_driver"
    by (simp add: stub_middleware_def)
  have 5: "drv_get_screenshot_as_png stub_env (browser (waited 2 [Call (Until 10)])) =
       Inr [0x89, 0x50, 0x4E, 0x47, 0]"
    by (simp add: stub_env_def waited_def)
  from meta_entries_written [OF 1] 1 2 3 4 5 show ?thesis by auto
qed

subsection \<open>C8: the proxy settings are not checked\<close>




subsection \<open>C9: a configuration without extra arguments\<close>

text \<open>
  C9 fails on the code. A configuration that gives the driver name and the driver
  executable path and does not set \<^verbatim>\<open>SELENIUM_DRIVER_ARGUMENTS\<close> passes both checks of
  \<^verbatim>\<open>from_crawler\<close>; the constructor then iterates over \<^verbatim>\<open>None\<close> at line 67 and raises
  \<^verbatim>\<open>TypeError\<close>, before any launch branch.
\<close>

theorem from_crawler_without_arguments:
  "SELENIUM_DRIVER_NAME settings_without_arguments = PStr ''chrome''
   \<and> SELENIUM_DRIVER_EXECUTABLE_PATH settings_without_arguments = PStr ''/usr/bin/chromedriver''
   \<and> SELENIUM_DRIVER_ARGUMENTS settings_without_arguments = None
   \<and> from_crawler stub_env settings_without_arguments world0 = (Inl TypeError, world0)"
  by (simp add: stub_settings_defs construction_defs stub_env_def world0_def)

text \<open>
  The same holds in every environment: without the setting, \<^verbatim>\<open>from_crawler\<close> never
  returns a middleware.
\<close>

lemma from_crawler_needs_arguments:
  assumes "SELENIUM_DRIVER_ARGUMENTS s = None"
  shows "\<exists>e. from_crawler env s w = (Inl e, w)"
  using assms init_without_arguments [of "args_of s" env w]
  by (auto simp: from_crawler_def args_of_simps)

subsection \<open>C10: the constructor without a launch strategy\<close>

text \<open>
  C10, as stated, fails: called with a falsy proxy flag and neither a driver executable
  path nor a command executor, the constructor does not complete when it raises before
  line 71, at line 56 for the name of no driver family and at line 68 for an extra
  argument that the options object refuses.
\<close>

theorem init_without_launch_counterexample:
  "(\<not> py_truthy (proxy_enabled (bare_args\<lparr>driver_name := PStr ''netscape''\<rparr>))
    \<and> driver_executable_path (bare_args\<lparr>driver_name := PStr ''netscape''\<rparr>) = PNone
    \<and> command_executor (bare_args\<lparr>driver_name := PStr ''netscape''\<rparr>) = PNone
    \<and> init stub_env (bare_args\<lparr>driver_name := PStr ''netscape''\<rparr>) world0 =
        (Inl ModuleNotFoundError, world0))
   \<and> (\<not> py_truthy (proxy_enabled (bare_args\<lparr>driver_arguments := Some [[]]\<rparr>))
    \<and> driver_executable_path (bare_args\<lparr>driver_arguments := Some [[]]\<rparr>) = PNone
    \<and> command_executor (bare_args\<lparr>driver_arguments := Some [[]]\<rparr>) = PNone
    \<and> init stub_env (bare_args\<lparr>driver_arguments := Some [[]]\<rparr>) world0 =
        (Inl (DriverError (ValueError ''argument can not be null'')), world0))"
  by (simp add: bare_args_def construction_defs stub_env_def world0_def)

text \<open>
  C10, amended. Called with a falsy proxy flag, no driver executable path and no command
  executor, and provided that lines 54 to 68 raise nothing (the driver family resolves,
  the options object is made and takes the browser path and every extra argument, which
  are given as a list), the constructor completes without raising and without touching
  the world: no launch branch is entered, no driver constructor is called, and
  \<^verbatim>\<open>self.driver\<close> is never assigned. The failure comes later, as an \<^verbatim>\<open>AttributeError\<close>,
  when \<^verbatim>\<open>process_request\<close> handles a directive request or when \<^verbatim>\<open>spider_closed\<close> runs;
  a request that is not a directive request is still passed through.
\<close>

theorem init_without_launch:
  assumes "\<not> py_truthy (proxy_enabled a)"
    and "driver_executable_path a = PNone"
    and "command_executor a = PNone"
    and "init_options env a = Inr (k, opts)"
  shows "init env a w = (Inr \<lparr>driver = None\<rparr>, w)
       \<and> process_request env \<lparr>driver = None\<rparr> (Request r) w' =
           (Inr None, \<lparr>self = \<lparr>driver = None\<rparr>, request = Request r, world = w'\<rparr>)
       \<and> process_request env \<lparr>driver = None\<rparr> (SeleniumRequest r d) w' =
           (Inl (AttributeError ''driver''),
            \<lparr>self = \<lparr>driver = None\<rparr>, request = SeleniumRequest r d, world = w'\<rparr>)
       \<and> spider_closed env \<lparr>driver = None\<rparr> w' = (Inl (AttributeError ''driver''), w')"
  using assms
  by (simp add: init_def init_launch_def process_request_def navigate_def io_bind_def
      command_def spider_closed_def)

theorem init_without_launch_witness:
  "\<not> py_truthy (proxy_enabled bare_args)
   \<and> driver_executable_path bare_args = PNone
   \<and> command_executor bare_args = PNone
   \<and> init_options stub_env bare_args =
       Inr (''selenium.webdriver.chrome.webdriver'', chrome_options\<lparr>arguments := []\<rparr>)
   \<and> init stub_env bare_args world0 = (Inr \<lparr>driver = None\<rparr>, world0)
   \<and> process_request stub_env \<lparr>driver = None\<rparr>
         (SeleniumRequest stub_request stub_directives) world0 =
       (Inl (AttributeError ''driver''),
        \<lparr>self = \<lparr>driver = None\<rparr>, request = SeleniumRequest stub_request stub_directives,
           world = world0\<rparr>)
   \<and> spider_closed stub_env \<lparr>driver = None\<rparr> world0 = (Inl (AttributeError ''driver''), world0)"
proof -
  have 1: "\<not> py_truthy (proxy_enabled bare_args)"
    and 2: "driver_executable_path bare_args = PNone"
    and 3: "command_executor bare_args = PNone"
    by (simp_all add: bare_args_def)
  from init_without_launch [OF 1 2 3 stub_prepared(6), of world0 stub_request world0 stub_directives]
    1 2 3 stub_prepared(6)
  show ?thesis by simp
qed

end
